theory Spec2Isabelle
  imports Main
begin

section \<open>JavaScript string and truthiness primitives\<close>

text \<open>
  Strings are lists of characters. The environment \<open>process.env\<close> is a partial map from
  variable names to strings: \<open>None\<close> is \<open>undefined\<close>.
\<close>

type_synonym env = "string \<rightharpoonup> string"

text \<open>\<open>s.split(',')\<close>: the empty string splits into one empty piece.\<close>

fun split :: "char \<Rightarrow> string \<Rightarrow> string list" where
  "split sep [] = [[]]"
| "split sep (c # cs) =
     (if c = sep then [] # split sep cs
      else (case split sep cs of
              w # ws \<Rightarrow> (c # w) # ws
            | [] \<Rightarrow> [[c]]))"

text \<open>
  White space removed by \<open>String.prototype.trim\<close>, among the characters a \<open>char\<close> can
  hold: TAB, LF, VT, FF, CR, SPACE and NBSP.
\<close>

definition is_white_space :: "char \<Rightarrow> bool" where
  "is_white_space c =
     (c \<in> set [CHR 0x09, CHR 0x0A, CHR 0x0B, CHR 0x0C, CHR 0x0D, CHR 0x20, CHR 0xA0])"

definition trim :: "string \<Rightarrow> string" where
  "trim s = rev (dropWhile is_white_space (rev (dropWhile is_white_space s)))"

text \<open>A string is truthy when it is not empty; \<open>undefined\<close> is falsy.\<close>

definition truthy :: "string option \<Rightarrow> bool" where
  "truthy v = (case v of None \<Rightarrow> False | Some s \<Rightarrow> s \<noteq> [])"

text \<open>\<open>a || b\<close> on a possibly undefined string.\<close>

definition js_or :: "string option \<Rightarrow> string \<Rightarrow> string" where
  "js_or a b = (case a of None \<Rightarrow> b | Some s \<Rightarrow> if s \<noteq> [] then s else b)"

definition endsWith :: "string \<Rightarrow> string \<Rightarrow> bool" where
  "endsWith s suf = (length suf \<le> length s \<and> drop (length s - length suf) s = suf)"

fun includes_str :: "string \<Rightarrow> string \<Rightarrow> bool" where
  "includes_str [] sub = (sub = [])"
| "includes_str (c # cs) sub = (take (length sub) (c # cs) = sub \<or> includes_str cs sub)"

section \<open>The allow-list, parsed in two places\<close>

text \<open>
  \<open>index.ts\<close>, \<open>main\<close>:
  \<^verbatim>\<open>process.env.ALLOWED_CHATS?.split(',').map((c) => c.trim()).filter((c) => c) || []\<close>
  The optional chain yields \<open>undefined\<close> when the variable is unset, and \<open>|| []\<close> turns
  that into the empty array; an array is always truthy.
\<close>

definition allowedChats_main :: "string option \<Rightarrow> string list" where
  "allowedChats_main v =
     (case (case v of
              None \<Rightarrow> None
            | Some s \<Rightarrow> Some (filter (\<lambda>c. c \<noteq> []) (map (\<lambda>c. trim c) (split CHR '','' s)))) of
        None \<Rightarrow> []
      | Some a \<Rightarrow> a)"

text \<open>
  \<open>whatsapp.ts\<close>, the \<open>messages.upsert\<close> listener, once for every message:
  \<^verbatim>\<open>process.env.ALLOWED_CHATS?.split(',').map(c => c.trim()).filter(c => c) || []\<close>
\<close>

definition allowedChats_upsert :: "string option \<Rightarrow> string list" where
  "allowedChats_upsert v =
     (case v of
        None \<Rightarrow> []
      | Some s \<Rightarrow> filter (\<lambda>c. c \<noteq> []) (map trim (split CHR '','' s)))"

text \<open>
  The parse in the specification's words: split on commas, trim each entry, drop blank
  entries, the empty list when the variable is unset. One pass over the characters,
  collecting the current entry in \<open>acc\<close>.
\<close>

definition entry :: "string \<Rightarrow> string list" where
  "entry acc = (if trim acc = [] then [] else [trim acc])"

fun entries :: "string \<Rightarrow> string \<Rightarrow> string list" where
  "entries acc [] = entry acc"
| "entries acc (c # cs) =
     (if c = CHR '','' then entry acc @ entries [] cs else entries (acc @ [c]) cs)"

definition allow_list_spec :: "string option \<Rightarrow> string list" where
  "allow_list_spec v = (case v of None \<Rightarrow> [] | Some s \<Rightarrow> entries [] s)"

section \<open>Effects and errors\<close>

text \<open>
  What the program does to the outside world, in the order it does it. Log texts are
  given without their emoji prefixes.
\<close>

datatype effect =
    ConsoleLog string
  | ConsoleError string
  | QrGenerate string
  | FetchLatestBaileysVersion
  | UseMultiFileAuthState
  | MakeWASocket
  | HandleMessage string
  | SockSendMessage string string bool
  | SetTimeoutConnect nat

text \<open>
  \<open>HandleMessage t\<close> is the call \<open>messageHandler.handleMessage(t)\<close>;
  \<open>SockSendMessage to t q\<close> is the call \<open>this.sock.sendMessage(to, {text: t}, ...)\<close>,
  \<open>q\<close> telling whether a quoted message was passed (a truthy \<open>quotedMessage\<close>);
  \<open>SetTimeoutConnect ms\<close> is \<open>setTimeout(() => this.connect(onMessage), ms)\<close>.
\<close>

datatype error =
    NotConnected
  | NoAllowedChats
  | Thrown string

fun error_message :: "error \<Rightarrow> string" where
  "error_message NotConnected = ''Bot nao esta conectado''"
| "error_message NoAllowedChats = ''Nenhum chat autorizado configurado em ALLOWED_CHATS''"
| "error_message (Thrown m) = m"

fun handler_calls :: "effect list \<Rightarrow> string list" where
  "handler_calls [] = []"
| "handler_calls (HandleMessage t # fx) = t # handler_calls fx"
| "handler_calls (_ # fx) = handler_calls fx"

fun sends :: "effect list \<Rightarrow> (string \<times> string) list" where
  "sends [] = []"
| "sends (SockSendMessage to t q # fx) = (to, t) # sends fx"
| "sends (_ # fx) = sends fx"

fun timers :: "effect list \<Rightarrow> nat list" where
  "timers [] = []"
| "timers (SetTimeoutConnect ms # fx) = ms # timers fx"
| "timers (_ # fx) = timers fx"

fun console_errors :: "effect list \<Rightarrow> string list" where
  "console_errors [] = []"
| "console_errors (ConsoleError s # fx) = s # console_errors fx"
| "console_errors (_ # fx) = console_errors fx"

fun connects :: "effect list \<Rightarrow> nat" where
  "connects [] = 0"
| "connects (FetchLatestBaileysVersion # fx) = Suc (connects fx)"
| "connects (UseMultiFileAuthState # fx) = Suc (connects fx)"
| "connects (MakeWASocket # fx) = Suc (connects fx)"
| "connects (_ # fx) = connects fx"

section \<open>The bot: \<open>whatsapp.ts\<close>\<close>

text \<open>
  The socket belongs to the protocol library; the one thing recorded of it here is the
  connection state the library keeps (\<open>'connecting' | 'open' | 'close'\<close>). The bot never
  reads it: its only state is \<open>sock\<close>, \<open>null\<close> until \<open>connect\<close> has created a socket.
\<close>

datatype WAConnectionState = WA_connecting | WA_open | WA_close

record WASocket =
  ws_connection :: WAConnectionState

record WhatsAppBot =
  sock :: "WASocket option"

definition WhatsAppBot_new :: WhatsAppBot where
  "WhatsAppBot_new = \<lparr>sock = None\<rparr>"

text \<open>
  The outcome of the three library calls of \<open>connect\<close>, in the order they are made:
  which of them throws, if any.
\<close>

datatype lib_outcome =
    LibOk
  | FetchVersionThrows error
  | AuthStateThrows error
  | MakeSocketThrows error

text \<open>
  \<open>connect\<close>, up to the creation of the socket. An error of a library call is logged and
  thrown again; \<open>this.sock\<close> is assigned only when \<open>makeWASocket\<close> has returned.
\<close>

definition connect ::
  "lib_outcome \<Rightarrow> WhatsAppBot \<Rightarrow> (error option \<times> WhatsAppBot) \<times> effect list" where
  "connect lib self =
     (case lib of
        FetchVersionThrows e \<Rightarrow>
          ((Some e, self),
           [ConsoleLog ''Pasta de autenticacao:'', FetchLatestBaileysVersion,
            ConsoleError ''Erro ao conectar:''])
      | AuthStateThrows e \<Rightarrow>
          ((Some e, self),
           [ConsoleLog ''Pasta de autenticacao:'', FetchLatestBaileysVersion,
            ConsoleLog ''Usando Baileys'', UseMultiFileAuthState,
            ConsoleError ''Erro ao conectar:''])
      | MakeSocketThrows e \<Rightarrow>
          ((Some e, self),
           [ConsoleLog ''Pasta de autenticacao:'', FetchLatestBaileysVersion,
            ConsoleLog ''Usando Baileys'', UseMultiFileAuthState, MakeWASocket,
            ConsoleError ''Erro ao conectar:''])
      | LibOk \<Rightarrow>
          ((None, self\<lparr>sock := Some \<lparr>ws_connection = WA_connecting\<rparr>\<rparr>),
           [ConsoleLog ''Pasta de autenticacao:'', FetchLatestBaileysVersion,
            ConsoleLog ''Usando Baileys'', UseMultiFileAuthState, MakeWASocket]))"

subsection \<open>The \<open>connection.update\<close> listener\<close>

record ConnectionUpdate =
  connection :: "WAConnectionState option"
  statusCode :: "int option"
  qr :: "string option"

text \<open>
  \<open>statusCode\<close> is \<open>(lastDisconnect?.error as Boom)?.output?.statusCode\<close>, \<open>None\<close> when the
  chain is undefined. \<open>loggedOut\<close> is the library's constant \<open>DisconnectReason.loggedOut\<close>,
  taken as a parameter.
\<close>

definition shouldReconnect :: "int \<Rightarrow> int option \<Rightarrow> bool" where
  "shouldReconnect loggedOut code = (code \<noteq> Some loggedOut)"

definition connection_update :: "int \<Rightarrow> ConnectionUpdate \<Rightarrow> effect list" where
  "connection_update loggedOut update =
     [ConsoleLog ''Status da conexao''] @
     (case qr update of
        None \<Rightarrow> []
      | Some q \<Rightarrow>
          if q \<noteq> [] then
            [ConsoleLog ''Escaneie o QR Code abaixo com seu WhatsApp'', QrGenerate q,
             ConsoleLog ''Se o QR code acima estiver quebrado, copie o texto abaixo'',
             ConsoleLog (replicate 80 CHR ''-''), ConsoleLog q,
             ConsoleLog (replicate 80 CHR ''-''),
             ConsoleLog ''Cole em'', ConsoleLog ''Depois escaneie o QR code gerado pelo site'']
          else []) @
     (if connection update = Some WA_open
      then [ConsoleLog ''Bot conectado ao WhatsApp com sucesso''] else []) @
     (if connection update = Some WA_close then
        [ConsoleLog ''Conexao fechada'', ConsoleLog ''Codigo'', ConsoleLog ''Motivo'',
         ConsoleLog ''Reconectar''] @
        (if shouldReconnect loggedOut (statusCode update)
         then [ConsoleLog ''Aguardando 5 segundos antes de reconectar'', SetTimeoutConnect 5000]
         else [ConsoleLog ''Sessao encerrada. Delete a pasta auth/ e reinicie o bot''])
      else [])"

subsection \<open>\<open>sendMessage\<close> and \<open>reply\<close>\<close>

text \<open>
  \<open>tx to t\<close> is the outcome of the transport call \<open>this.sock.sendMessage\<close>: \<open>Some e\<close> when
  it throws \<open>e\<close>. The first component of a result is the error the method itself throws.
\<close>

definition sendMessage ::
  "(string \<Rightarrow> string \<Rightarrow> error option) \<Rightarrow> WhatsAppBot \<Rightarrow> string \<Rightarrow> string \<Rightarrow> error option \<times> effect list" where
  "sendMessage tx self to t =
     (case sock self of
        None \<Rightarrow> (Some NotConnected, [])
      | Some s \<Rightarrow>
          (case tx to t of
             Some e \<Rightarrow> (None, [SockSendMessage to t False, ConsoleError ''Erro ao enviar mensagem''])
           | None \<Rightarrow> (None, [SockSendMessage to t False])))"

definition reply ::
  "(string \<Rightarrow> string \<Rightarrow> error option) \<Rightarrow> WhatsAppBot \<Rightarrow> string \<Rightarrow> string \<Rightarrow> string option
     \<Rightarrow> error option \<times> effect list" where
  "reply tx self to t quotedMessage =
     (case sock self of
        None \<Rightarrow> (Some NotConnected, [])
      | Some s \<Rightarrow> (tx to t, [SockSendMessage to t (truthy quotedMessage)]))"

subsection \<open>The \<open>messages.upsert\<close> listener\<close>

record MessageKey =
  fromMe :: bool
  remoteJid :: string

text \<open>
  \<open>extendedText\<close> is \<open>msg.message.extendedTextMessage?.text\<close>, \<open>None\<close> when the chain is
  undefined.
\<close>

record MessageContent =
  conversation :: "string option"
  extendedText :: "string option"

record WAMessage =
  key :: MessageKey
  message :: "MessageContent option"

definition messageText :: "MessageContent \<Rightarrow> string" where
  "messageText m = js_or (conversation m) (js_or (extendedText m) [])"

text \<open>How one pass through the body of the \<open>for\<close> loop ends.\<close>

datatype control = Continue | Return

text \<open>
  The end of the loop body, from the extraction of the text on: \<open>fx1\<close> is what the
  allow-list check before it has logged; \<open>onMessage\<close> is the callback given to
  \<open>connect\<close>, returning the error it throws, if any, and its effects. The \<open>try\<close> block
  encloses the call, so no error leaves the listener.
\<close>

definition deliver ::
  "(string \<Rightarrow> string \<Rightarrow> error option \<times> effect list) \<Rightarrow> string \<Rightarrow> MessageContent \<Rightarrow> effect list
     \<Rightarrow> effect list" where
  "deliver onMessage sender m fx1 =
     (if messageText m \<noteq> [] then
        (case onMessage sender (messageText m) of
           (r, fx) \<Rightarrow>
             fx1 @ [ConsoleLog (''Mensagem de '' @ sender @ '': '' @ messageText m)] @ fx @
             (case r of
                Some e \<Rightarrow> [ConsoleError ''Erro ao processar mensagem:'']
              | None \<Rightarrow> []))
      else fx1)"

text \<open>
  The body of the loop for one message. \<open>env\<close> is \<open>process.env\<close> as it is when the message
  is handled; \<open>sender\<close> is the source's \<open>from\<close>.
\<close>

definition loop_body ::
  "env \<Rightarrow> (string \<Rightarrow> string \<Rightarrow> error option \<times> effect list) \<Rightarrow> WAMessage \<Rightarrow> control \<times> effect list" where
  "loop_body env onMessage msg =
     (if fromMe (key msg) then (Continue, [])
      else case message msg of
        None \<Rightarrow> (Continue, [])
      | Some m \<Rightarrow>
          (let sender = remoteJid (key msg);
               allowedChats = allowedChats_upsert (env ''ALLOWED_CHATS'')
           in if length allowedChats > 0 then
                (if sender \<notin> set allowedChats then (Return, [])
                 else (Continue,
                       deliver onMessage sender m
                         [ConsoleLog (''Mensagem AUTORIZADA de: '' @ sender)]))
              else
                (Continue,
                 deliver onMessage sender m
                   (if endsWith sender ''@g.us''
                    then [ConsoleLog (''Grupo (adicione no .env se quiser restringir): '' @ sender)]
                    else [ConsoleLog (''Contato (adicione no .env se quiser restringir): '' @ sender)]))))"

fun messages_upsert ::
  "env \<Rightarrow> (string \<Rightarrow> string \<Rightarrow> error option \<times> effect list) \<Rightarrow> WAMessage list \<Rightarrow> effect list" where
  "messages_upsert env onMessage [] = []"
| "messages_upsert env onMessage (msg # msgs) =
     (case loop_body env onMessage msg of
        (Return, fx) \<Rightarrow> fx
      | (Continue, fx) \<Rightarrow> fx @ messages_upsert env onMessage msgs)"

section \<open>Startup: \<open>index.ts\<close>\<close>

definition requiredEnvVars :: "string list" where
  "requiredEnvVars =
     [''GOOGLE_PROJECT_ID'', ''GOOGLE_CLIENT_EMAIL'', ''GOOGLE_PRIVATE_KEY'', ''SHEET_ID'',
      ''BOT_PHONE_NUMBER'', ''ALLOWED_CHATS'']"

definition missingVars :: "env \<Rightarrow> string list" where
  "missingVars env = filter (\<lambda>varName. \<not> truthy (env varName)) requiredEnvVars"

text \<open>
  The callback \<open>onMessage\<close> of \<open>main\<close>. \<open>hm\<close> is the outcome of the external
  \<open>messageHandler.handleMessage\<close>: \<open>Inl e\<close> when it throws \<open>e\<close>, \<open>Inr response\<close> otherwise.
\<close>

definition onMessage ::
  "(string \<Rightarrow> error + string) \<Rightarrow> (string \<Rightarrow> string \<Rightarrow> error option) \<Rightarrow> WhatsAppBot
     \<Rightarrow> string \<Rightarrow> string \<Rightarrow> error option \<times> effect list" where
  "onMessage hm tx wbot sender t =
     (case hm t of
        Inl e \<Rightarrow> (Some e, [ConsoleLog (''Processando mensagem de '' @ sender), HandleMessage t])
      | Inr response \<Rightarrow>
          (case sendMessage tx wbot sender response of
             (Some e, fx) \<Rightarrow>
               (Some e, [ConsoleLog (''Processando mensagem de '' @ sender), HandleMessage t] @ fx)
           | (None, fx) \<Rightarrow>
               (None,
                [ConsoleLog (''Processando mensagem de '' @ sender), HandleMessage t] @ fx @
                [ConsoleLog (''Resposta enviada: '' @ take 50 response @ ''...'')])))"

text \<open>How the promise of \<open>main\<close> ends: fulfilled, rejected, or cut short by \<open>process.exit\<close>.\<close>

datatype main_result = Returned | Threw error | ProcessExit nat

definition main :: "env \<Rightarrow> lib_outcome \<Rightarrow> main_result \<times> effect list" where
  "main env lib =
     (let allowedChats = allowedChats_main (env ''ALLOWED_CHATS'')
      in if length allowedChats > 0 then
           (let fx1 =
                  [ConsoleLog ''Iniciando Finance WhatsApp Bot...'',
                   ConsoleLog ''Bot so respondera em chats autorizados:'',
                   ConsoleLog (replicate 51 CHR ''='')] @
                  map (\<lambda>chat. ConsoleLog
                         (''   '' @ (if endsWith chat ''@g.us'' then ''Grupo'' else ''Contato'') @
                          '': '' @ chat)) allowedChats
            in if length (missingVars env) > 0 then
                 (ProcessExit 1,
                  fx1 @ [ConsoleError ''Variaveis de ambiente faltando:''] @
                  map (\<lambda>varName. ConsoleError (''   - '' @ varName)) (missingVars env) @
                  [ConsoleError ''Crie um arquivo .env baseado no .env.example''])
               else
                 (case connect lib WhatsAppBot_new of
                    ((Some e, wbot), fx) \<Rightarrow>
                      (ProcessExit 1, fx1 @ fx @ [ConsoleError ''Erro ao iniciar bot:''])
                  | ((None, wbot), fx) \<Rightarrow>
                      (Returned,
                       fx1 @ fx @
                       [ConsoleLog ''Bot iniciado com sucesso!'', ConsoleLog ''Aguardando QR Code...''])))
         else
           (Threw NoAllowedChats,
            [ConsoleLog ''Iniciando Finance WhatsApp Bot...'',
             ConsoleLog ''ATENCAO: Nenhum chat configurado. Configure algum chat para o BOT funcionar corretamente.'']))"

text \<open>
  The listener of \<open>unhandledRejection\<close>: it returns without a call of \<open>process.exit\<close> on
  both of its paths.
\<close>

definition unhandledRejection :: "error \<Rightarrow> effect list" where
  "unhandledRejection e =
     (let errorMsg = error_message e
      in if includes_str errorMsg ''Bad MAC'' \<or> includes_str errorMsg ''decrypt'' \<or>
            includes_str errorMsg ''Session error''
         then []
         else [ConsoleError ''Erro nao tratado:''])"

text \<open>
  The module as a whole: the listeners are registered, then \<open>main()\<close> is called and its
  promise is dropped, so a rejection goes to the \<open>unhandledRejection\<close> listener. The first
  component is the argument of the call of \<open>process.exit\<close>, \<open>None\<close> when startup made no
  such call.
\<close>

definition program :: "env \<Rightarrow> lib_outcome \<Rightarrow> nat option \<times> effect list" where
  "program env lib =
     (case main env lib of
        (ProcessExit n, fx) \<Rightarrow> (Some n, fx)
      | (Threw e, fx) \<Rightarrow> (None, fx @ unhandledRejection e)
      | (Returned, fx) \<Rightarrow> (None, fx))"

section \<open>The connection state the specification speaks of\<close>

text \<open>
  The source keeps no connection state of its own. The state \<open>Open\<close> of the specification
  is the library's socket being in state \<open>'open'\<close>.
\<close>

definition connection_open :: "WhatsAppBot \<Rightarrow> bool" where
  "connection_open self =
     (case sock self of None \<Rightarrow> False | Some s \<Rightarrow> ws_connection s = WA_open)"

section \<open>Concrete inputs\<close>

definition env_none :: env where
  "env_none = Map.empty"

definition env_1234 :: env where
  "env_1234 = [''ALLOWED_CHATS'' \<mapsto> ''1234@g.us'']"

definition env_5555 :: env where
  "env_5555 = [''ALLOWED_CHATS'' \<mapsto> ''5555@g.us'']"

definition env_1234_sheet :: env where
  "env_1234_sheet = [''ALLOWED_CHATS'' \<mapsto> ''1234@g.us'', ''SHEET_ID'' \<mapsto> ''sheet'']"

text \<open>Every required key is set; the allow-list holds blank entries only.\<close>

definition env_blank :: env where
  "env_blank =
     [''GOOGLE_PROJECT_ID'' \<mapsto> ''p'', ''GOOGLE_CLIENT_EMAIL'' \<mapsto> ''e'',
      ''GOOGLE_PRIVATE_KEY'' \<mapsto> ''k'', ''SHEET_ID'' \<mapsto> ''s'',
      ''BOT_PHONE_NUMBER'' \<mapsto> ''n'', ''ALLOWED_CHATS'' \<mapsto> '' , '']"

definition text_message :: "string \<Rightarrow> string \<Rightarrow> WAMessage" where
  "text_message sender t =
     \<lparr>key = \<lparr>fromMe = False, remoteJid = sender\<rparr>,
      message = Some \<lparr>conversation = Some t, extendedText = None\<rparr>\<rparr>"

definition hm_ok :: "string \<Rightarrow> error + string" where
  "hm_ok t = Inr ''ok''"

definition hm_throws :: "string \<Rightarrow> error + string" where
  "hm_throws t = Inl (Thrown ''boom'')"

definition tx_ok :: "string \<Rightarrow> string \<Rightarrow> error option" where
  "tx_ok to t = None"

definition tx_fails :: "string \<Rightarrow> string \<Rightarrow> error option" where
  "tx_fails to t = Some (Thrown ''Connection Closed'')"

text \<open>The bot right after a successful \<open>connect\<close>: the socket exists and is connecting.\<close>

definition bot_connecting :: WhatsAppBot where
  "bot_connecting = snd (fst (connect LibOk WhatsAppBot_new))"

definition update_close :: "int option \<Rightarrow> ConnectionUpdate" where
  "update_close code = \<lparr>connection = Some WA_close, statusCode = code, qr = None\<rparr>"

section \<open>Auxiliary facts\<close>

lemma handler_calls_append: "handler_calls (a @ b) = handler_calls a @ handler_calls b"
  by (induction a rule: handler_calls.induct) simp_all

lemma sends_append: "sends (a @ b) = sends a @ sends b"
  by (induction a rule: sends.induct) simp_all

lemma timers_append: "timers (a @ b) = timers a @ timers b"
  by (induction a rule: timers.induct) simp_all

lemma console_errors_append: "console_errors (a @ b) = console_errors a @ console_errors b"
  by (induction a rule: console_errors.induct) simp_all

lemma connects_append: "connects (a @ b) = connects a + connects b"
  by (induction a rule: connects.induct) simp_all

lemma console_errors_map_log: "console_errors (map (\<lambda>x. ConsoleLog (f x)) xs) = []"
  by (induction xs) simp_all

lemma console_errors_map_error: "console_errors (map (\<lambda>x. ConsoleError (f x)) xs) = map f xs"
  by (induction xs) simp_all

lemma connects_map_log: "connects (map (\<lambda>x. ConsoleLog (f x)) xs) = 0"
  by (induction xs) simp_all

lemma connects_map_error: "connects (map (\<lambda>x. ConsoleError (f x)) xs) = 0"
  by (induction xs) simp_all

lemma split_not_Nil: "split sep s \<noteq> []"
  by (induction s) (auto split: list.splits)

lemma entries_split:
  "entries acc s =
     entry (acc @ hd (split CHR '','' s)) @
     filter (\<lambda>c. c \<noteq> []) (map trim (tl (split CHR '','' s)))"
proof (induction s arbitrary: acc)
  case Nil
  show ?case by simp
next
  case (Cons c cs)
  obtain w ws where sp: "split CHR '','' cs = w # ws"
    using split_not_Nil [of "CHR '',''" cs] by (cases "split CHR '','' cs") auto
  show ?case
  proof (cases "c = CHR '',''")
    case True
    have "entries acc (c # cs) = entry acc @ entries [] cs"
      using True by simp
    also have "entries [] cs = entry w @ filter (\<lambda>c. c \<noteq> []) (map trim ws)"
      using Cons.IH [of "[]"] sp by simp
    also have "entry w @ filter (\<lambda>c. c \<noteq> []) (map trim ws) =
        filter (\<lambda>c. c \<noteq> []) (map trim (split CHR '','' cs))"
      using sp by (simp add: entry_def)
    finally show ?thesis
      using True by simp
  next
    case False
    have "entries acc (c # cs) = entries (acc @ [c]) cs"
      using False by simp
    also have "\<dots> = entry ((acc @ [c]) @ w) @ filter (\<lambda>c. c \<noteq> []) (map trim ws)"
      using Cons.IH [of "acc @ [c]"] sp by simp
    finally show ?thesis
      using False sp by simp
  qed
qed

lemma entries_parse:
  "entries [] s = filter (\<lambda>c. c \<noteq> []) (map trim (split CHR '','' s))"
proof -
  obtain w ws where sp: "split CHR '','' s = w # ws"
    using split_not_Nil [of "CHR '',''" s] by (cases "split CHR '','' s") auto
  show ?thesis
    using entries_split [of "[]" s] sp by (simp add: entry_def)
qed

lemma allowed_1234: "allowedChats_upsert (env_1234 ''ALLOWED_CHATS'') = [''1234@g.us'']"
  by (simp add: allowedChats_upsert_def env_1234_def trim_def is_white_space_def)

lemma allowed_5555: "allowedChats_upsert (env_5555 ''ALLOWED_CHATS'') = [''5555@g.us'']"
  by (simp add: allowedChats_upsert_def env_5555_def trim_def is_white_space_def)

lemma allowed_main_1234: "allowedChats_main (env_1234 ''ALLOWED_CHATS'') = [''1234@g.us'']"
  by (simp add: allowedChats_main_def env_1234_def trim_def is_white_space_def)

lemma allowed_main_blank: "allowedChats_main (env_blank ''ALLOWED_CHATS'') = []"
  by (simp add: allowedChats_main_def env_blank_def trim_def is_white_space_def)

lemma allowed_main_none: "allowedChats_main (env_none ''ALLOWED_CHATS'') = []"
  by (simp add: allowedChats_main_def env_none_def)

lemma unhandledRejection_NoAllowedChats:
  "unhandledRejection NoAllowedChats = [ConsoleError ''Erro nao tratado:'']"
  by (simp add: unhandledRejection_def)

lemma sock_bot_connecting: "sock bot_connecting = Some \<lparr>ws_connection = WA_connecting\<rparr>"
  by (simp add: bot_connecting_def connect_def WhatsAppBot_new_def)

lemma messageText_text_message:
  "message (text_message sender t) = Some \<lparr>conversation = Some t, extendedText = None\<rparr>"
  "t \<noteq> [] \<Longrightarrow> messageText \<lparr>conversation = Some t, extendedText = None\<rparr> = t"
  "fromMe (key (text_message sender t)) = False"
  "remoteJid (key (text_message sender t)) = sender"
  by (simp_all add: text_message_def messageText_def js_or_def)

lemma handler_calls_onMessage:
  "handler_calls (snd (onMessage hm tx wbot sender t)) = [t]"
  by (auto simp: onMessage_def sendMessage_def handler_calls_append
      split: sum.splits option.splits)

lemma onMessage_throws:
  "fst (onMessage hm tx wbot sender t) = Some e \<Longrightarrow>
   onMessage hm tx wbot sender t =
     (Some e, [ConsoleLog (''Processando mensagem de '' @ sender), HandleMessage t])"
  by (auto simp: onMessage_def sendMessage_def split: sum.splits option.splits)

lemma onMessage_handler_throws:
  "hm t = Inl e \<Longrightarrow> fst (onMessage hm tx wbot sender t) = Some e"
  by (simp add: onMessage_def)

lemma onMessage_not_connected:
  "hm t = Inr response \<Longrightarrow> sock wbot = None \<Longrightarrow>
   fst (onMessage hm tx wbot sender t) = Some NotConnected"
  by (simp add: onMessage_def sendMessage_def)

lemma loop_body_env:
  "env1 ''ALLOWED_CHATS'' = env2 ''ALLOWED_CHATS'' \<Longrightarrow>
   loop_body env1 cb msg = loop_body env2 cb msg"
  by (simp add: loop_body_def split: option.splits)

lemma deliver_throws:
  assumes "messageText m \<noteq> []"
    and "fst (onMessage hm tx wbot sender (messageText m)) = Some e"
  shows "deliver (onMessage hm tx wbot) sender m fx1 =
           fx1 @
           [ConsoleLog (''Mensagem de '' @ sender @ '': '' @ messageText m),
            ConsoleLog (''Processando mensagem de '' @ sender), HandleMessage (messageText m),
            ConsoleError ''Erro ao processar mensagem:'']"
  using assms(1) onMessage_throws [OF assms(2)] by (simp add: deliver_def)

lemma handler_calls_deliver:
  assumes "messageText m \<noteq> []" and "handler_calls fx1 = []"
  shows "handler_calls (deliver (onMessage hm tx wbot) sender m fx1) = [messageText m]"
proof -
  obtain r fx where cb: "onMessage hm tx wbot sender (messageText m) = (r, fx)"
    by (cases "onMessage hm tx wbot sender (messageText m)")
  have "handler_calls fx = [messageText m]"
    using handler_calls_onMessage [of hm tx wbot sender "messageText m"] cb by simp
  then show ?thesis
    using assms cb by (simp add: deliver_def handler_calls_append split: option.splits)
qed

lemma loop_body_authorised:
  assumes "\<not> fromMe (key msg)" and "message msg = Some m"
    and "allowedChats_upsert (env ''ALLOWED_CHATS'') \<noteq> []"
    and "remoteJid (key msg) \<in> set (allowedChats_upsert (env ''ALLOWED_CHATS''))"
  shows "loop_body env cb msg =
           (Continue,
            deliver cb (remoteJid (key msg)) m
              [ConsoleLog (''Mensagem AUTORIZADA de: '' @ remoteJid (key msg))])"
  using assms by (simp add: loop_body_def Let_def)

lemma loop_body_unauthorised:
  assumes "\<not> fromMe (key msg)" and "message msg = Some m"
    and "allowedChats_upsert (env ''ALLOWED_CHATS'') \<noteq> []"
    and "remoteJid (key msg) \<notin> set (allowedChats_upsert (env ''ALLOWED_CHATS''))"
  shows "loop_body env cb msg = (Return, [])"
  using assms by (simp add: loop_body_def Let_def)

lemma loop_body_unfiltered:
  assumes "\<not> fromMe (key msg)" and "message msg = Some m"
    and "allowedChats_upsert (env ''ALLOWED_CHATS'') = []"
  shows "loop_body env cb msg =
           (Continue,
            deliver cb (remoteJid (key msg)) m
              (if endsWith (remoteJid (key msg)) ''@g.us''
               then [ConsoleLog (''Grupo (adicione no .env se quiser restringir): '' @
                                 remoteJid (key msg))]
               else [ConsoleLog (''Contato (adicione no .env se quiser restringir): '' @
                                 remoteJid (key msg))]))"
  using assms by (simp add: loop_body_def Let_def)

lemma main_empty_allow_list:
  assumes "allowedChats_main (env ''ALLOWED_CHATS'') = []"
  shows "main env lib =
           (Threw NoAllowedChats,
            [ConsoleLog ''Iniciando Finance WhatsApp Bot...'',
             ConsoleLog ''ATENCAO: Nenhum chat configurado. Configure algum chat para o BOT funcionar corretamente.''])"
  using assms by (simp add: main_def)

lemma program_empty_allow_list:
  assumes "allowedChats_main (env ''ALLOWED_CHATS'') = []"
  shows "program env lib =
           (None,
            [ConsoleLog ''Iniciando Finance WhatsApp Bot...'',
             ConsoleLog ''ATENCAO: Nenhum chat configurado. Configure algum chat para o BOT funcionar corretamente.'',
             ConsoleError ''Erro nao tratado:''])"
  using assms
  by (simp add: program_def main_empty_allow_list unhandledRejection_NoAllowedChats)

text \<open>
  The loop body on one message that is not from the bot itself and has a non-empty text,
  while the allow-list is not empty: the handler is invoked once when the sender is on
  the list, and nothing happens otherwise. The same holds of a batch of that message alone.
\<close>

lemma loop_body_accepts_iff_allowed:
  assumes "\<not> fromMe (key msg)" and "message msg = Some m" and "messageText m \<noteq> []"
    and "allowedChats_upsert (env ''ALLOWED_CHATS'') \<noteq> []"
  shows "(remoteJid (key msg) \<in> set (allowedChats_upsert (env ''ALLOWED_CHATS'')) \<longrightarrow>
            fst (loop_body env (onMessage hm tx wbot) msg) = Continue \<and>
            handler_calls (snd (loop_body env (onMessage hm tx wbot) msg)) = [messageText m] \<and>
            handler_calls (messages_upsert env (onMessage hm tx wbot) [msg]) = [messageText m]) \<and>
         (remoteJid (key msg) \<notin> set (allowedChats_upsert (env ''ALLOWED_CHATS'')) \<longrightarrow>
            loop_body env (onMessage hm tx wbot) msg = (Return, []) \<and>
            messages_upsert env (onMessage hm tx wbot) [msg] = [])"
proof (cases "remoteJid (key msg) \<in> set (allowedChats_upsert (env ''ALLOWED_CHATS''))")
  case True
  have lb: "loop_body env (onMessage hm tx wbot) msg =
      (Continue,
       deliver (onMessage hm tx wbot) (remoteJid (key msg)) m
         [ConsoleLog (''Mensagem AUTORIZADA de: '' @ remoteJid (key msg))])"
    using assms(1,2,4) True by (rule loop_body_authorised)
  have hc: "handler_calls
      (deliver (onMessage hm tx wbot) (remoteJid (key msg)) m
         [ConsoleLog (''Mensagem AUTORIZADA de: '' @ remoteJid (key msg))]) = [messageText m]"
    using assms(3) by (rule handler_calls_deliver) simp
  show ?thesis
    using True lb hc by simp
next
  case False
  have "loop_body env (onMessage hm tx wbot) msg = (Return, [])"
    using assms(1,2,4) False by (rule loop_body_unauthorised)
  with False show ?thesis by simp
qed

text \<open>
  With a non-empty allow-list, the required keys that are unset or empty are all printed,
  in the order of the list of required keys, and \<open>process.exit(1)\<close> is called before any
  connection attempt.
\<close>

lemma missing_keys_all_printed:
  assumes "allowedChats_main (env ''ALLOWED_CHATS'') \<noteq> []" and "missingVars env \<noteq> []"
  shows "fst (program env lib) = Some 1 \<and>
         console_errors (snd (program env lib)) =
           ''Variaveis de ambiente faltando:'' #
           map (\<lambda>varName. ''   - '' @ varName) (missingVars env) @
           [''Crie um arquivo .env baseado no .env.example''] \<and>
         connects (snd (program env lib)) = 0"
  using assms
  by (simp add: program_def main_def Let_def console_errors_append console_errors_map_log
      console_errors_map_error connects_append connects_map_log connects_map_error)

section \<open>The claims\<close>

text \<open>
  C1. Claim: whenever the allow-list resolves to the empty list, startup fails and the
  process exits with code 1 before any connection attempt. The code at such a
  configuration (every required key set, \<open>ALLOWED_CHATS\<close> holding blank entries only):
  \<open>main\<close> throws outside its \<open>try\<close> block, the rejection reaches the \<open>unhandledRejection\<close>
  listener, which logs it and returns; no call of \<open>process.exit\<close> is made. No connection
  is attempted.
\<close>

theorem C1_empty_allow_list_makes_no_exit_call:
  "allowedChats_main (env_blank ''ALLOWED_CHATS'') = [] \<and>
   missingVars env_blank = [] \<and>
   main env_blank LibOk =
     (Threw NoAllowedChats,
      [ConsoleLog ''Iniciando Finance WhatsApp Bot...'',
       ConsoleLog ''ATENCAO: Nenhum chat configurado. Configure algum chat para o BOT funcionar corretamente.'']) \<and>
   fst (program env_blank LibOk) = None \<and>
   fst (program env_blank LibOk) \<noteq> Some 1 \<and>
   console_errors (snd (program env_blank LibOk)) = [''Erro nao tratado:''] \<and>
   connects (snd (program env_blank LibOk)) = 0"
proof -
  have m: "missingVars env_blank = []"
    by (simp add: missingVars_def requiredEnvVars_def env_blank_def truthy_def)
  show ?thesis
    using m
    by (simp add: allowed_main_blank main_empty_allow_list program_empty_allow_list)
qed

text \<open>
  C2, as stated: a call of \<open>sendMessage\<close> while the connection is not open fails with the
  not-connected error and attempts no send. It fails right after \<open>connect\<close>: the socket
  exists, the connection is not open, and the send is attempted.
\<close>

theorem C2_send_while_connecting_counterexample:
  "\<not> connection_open bot_connecting \<and>
   sendMessage tx_ok bot_connecting ''1234@g.us'' ''hi'' =
     (None, [SockSendMessage ''1234@g.us'' ''hi'' False])"
  by (simp add: connection_open_def sock_bot_connecting sendMessage_def tx_ok_def)

text \<open>
  C2, amended: the guard of \<open>sendMessage\<close> is on the socket, not on the connection state.
  While no socket has been created the call fails with the not-connected error and
  attempts no send; once a socket exists the send is attempted exactly once and the call
  throws nothing, whatever the connection state.
\<close>

theorem C2_send_guarded_by_socket:
  "(sock self = None \<longrightarrow> sendMessage tx self to t = (Some NotConnected, [])) \<and>
   (sock self \<noteq> None \<longrightarrow>
      fst (sendMessage tx self to t) = None \<and>
      sends (snd (sendMessage tx self to t)) = [(to, t)])"
  by (auto simp: sendMessage_def split: option.splits)

theorem C2_send_guarded_by_socket_witness:
  "sock WhatsAppBot_new = None \<and>
   sendMessage tx_ok WhatsAppBot_new ''1234@g.us'' ''hi'' = (Some NotConnected, []) \<and>
   sock bot_connecting \<noteq> None \<and>
   fst (sendMessage tx_fails bot_connecting ''1234@g.us'' ''hi'') = None \<and>
   sends (snd (sendMessage tx_fails bot_connecting ''1234@g.us'' ''hi'')) =
     [(''1234@g.us'', ''hi'')]"
proof -
  have a: "sock WhatsAppBot_new = None"
    by (simp add: WhatsAppBot_new_def)
  have b: "sock bot_connecting \<noteq> None"
    by (simp add: sock_bot_connecting)
  show ?thesis
    using a b
      C2_send_guarded_by_socket [of WhatsAppBot_new tx_ok "''1234@g.us''" "''hi''"]
      C2_send_guarded_by_socket [of bot_connecting tx_fails "''1234@g.us''" "''hi''"]
    by simp
qed

text \<open>
  C3. Claim: discarding an event whose sender is not on the allow-list does not prevent
  the processing of the later events of the same batch. The code at the batch of an
  unauthorised message followed by an authorised one, with the allow-list
  \<open>1234@g.us\<close>: the unauthorised message ends the listener (\<open>return\<close>, where the other
  exclusions use \<open>continue\<close>), and the authorised message, which delivered alone invokes
  the handler, is never looked at.
\<close>

theorem C3_unauthorised_message_drops_rest_of_batch:
  "messages_upsert env_1234 (onMessage hm_ok tx_ok bot_connecting)
     [text_message ''5555@g.us'' ''spam'', text_message ''1234@g.us'' ''hello''] = [] \<and>
   messages_upsert env_1234 (onMessage hm_ok tx_ok bot_connecting)
     [text_message ''1234@g.us'' ''hello''] =
     [ConsoleLog ''Mensagem AUTORIZADA de: 1234@g.us'',
      ConsoleLog ''Mensagem de 1234@g.us: hello'',
      ConsoleLog ''Processando mensagem de 1234@g.us'',
      HandleMessage ''hello'',
      SockSendMessage ''1234@g.us'' ''ok'' False,
      ConsoleLog ''Resposta enviada: ok...'']"
  by (simp add: loop_body_def Let_def allowed_1234 messageText_text_message deliver_def
      onMessage_def hm_ok_def sendMessage_def sock_bot_connecting tx_ok_def)

text \<open>
  C4, as stated: the filter's decision depends only on the allow-list computed at startup,
  not on the process environment when the event arrives. The listener parses
  \<open>process.env.ALLOWED_CHATS\<close> again for every message: the sender \<open>1234@g.us\<close> is on the
  allow-list that startup computes from \<open>env_1234\<close>, and its message is rejected when the
  environment holds \<open>5555@g.us\<close> at the time of the event.
\<close>

theorem C4_decision_follows_event_time_env_counterexample:
  "allowedChats_main (env_1234 ''ALLOWED_CHATS'') = [''1234@g.us''] \<and>
   handler_calls (messages_upsert env_1234 (onMessage hm_ok tx_ok bot_connecting)
     [text_message ''1234@g.us'' ''hello'']) = [''hello''] \<and>
   messages_upsert env_5555 (onMessage hm_ok tx_ok bot_connecting)
     [text_message ''1234@g.us'' ''hello''] = []"
  by (simp add: allowed_main_1234 loop_body_def Let_def allowed_1234 allowed_5555
      messageText_text_message deliver_def onMessage_def hm_ok_def sendMessage_def
      sock_bot_connecting tx_ok_def)

text \<open>
  C4, amended: the allow-list is derived from the process environment again for every
  inbound event; what the listener does with a batch depends on the environment only
  through the value \<open>ALLOWED_CHATS\<close> has when the batch is handled.
\<close>

theorem C4_decision_depends_on_env_at_event:
  assumes "env1 ''ALLOWED_CHATS'' = env2 ''ALLOWED_CHATS''"
  shows "messages_upsert env1 cb msgs = messages_upsert env2 cb msgs"
proof (induction msgs)
  case Nil
  show ?case by simp
next
  case (Cons msg msgs)
  have "loop_body env1 cb msg = loop_body env2 cb msg"
    using assms by (rule loop_body_env)
  with Cons show ?case by (simp split: prod.splits control.splits)
qed

theorem C4_decision_depends_on_env_at_event_witness:
  "env_1234 ''ALLOWED_CHATS'' = env_1234_sheet ''ALLOWED_CHATS'' \<and>
   messages_upsert env_1234 (onMessage hm_ok tx_ok bot_connecting)
     [text_message ''5555@g.us'' ''spam'', text_message ''1234@g.us'' ''hello''] =
   messages_upsert env_1234_sheet (onMessage hm_ok tx_ok bot_connecting)
     [text_message ''5555@g.us'' ''spam'', text_message ''1234@g.us'' ''hello'']"
proof -
  have a: "env_1234 ''ALLOWED_CHATS'' = env_1234_sheet ''ALLOWED_CHATS''"
    by (simp add: env_1234_def env_1234_sheet_def)
  show ?thesis
    using a
      C4_decision_depends_on_env_at_event [of env_1234 env_1234_sheet
        "onMessage hm_ok tx_ok bot_connecting"
        "[text_message ''5555@g.us'' ''spam'', text_message ''1234@g.us'' ''hello'']"]
    by simp
qed

text \<open>
  C5. On a \<open>connection.update\<close> event that reports \<open>'close'\<close>, the reason is terminal exactly
  when its status code is the logged-out code; on every other reason (also when no code
  is given) one timer is set that calls \<open>connect\<close> after 5000 ms, and on the logged-out
  reason no timer is set.
\<close>

theorem C5_reconnect_once_unless_logged_out:
  assumes "connection update = Some WA_close"
  shows "(\<not> shouldReconnect loggedOut (statusCode update)) = (statusCode update = Some loggedOut) \<and>
         timers (connection_update loggedOut update) =
           (if statusCode update = Some loggedOut then [] else [5000])"
  using assms
  by (simp add: connection_update_def shouldReconnect_def timers_append split: option.splits)

theorem C5_reconnect_once_unless_logged_out_witness:
  "connection (update_close (Some 428)) = Some WA_close \<and>
   shouldReconnect 401 (statusCode (update_close (Some 428))) \<and>
   timers (connection_update 401 (update_close (Some 428))) = [5000] \<and>
   connection (update_close None) = Some WA_close \<and>
   timers (connection_update 401 (update_close None)) = [5000] \<and>
   connection (update_close (Some 401)) = Some WA_close \<and>
   \<not> shouldReconnect 401 (statusCode (update_close (Some 401))) \<and>
   timers (connection_update 401 (update_close (Some 401))) = []"
proof -
  have a: "connection (update_close (Some 428)) = Some WA_close"
    and b: "connection (update_close None) = Some WA_close"
    and c: "connection (update_close (Some 401)) = Some WA_close"
    by (simp_all add: update_close_def)
  have s: "statusCode (update_close (Some 428)) = Some 428"
    "statusCode (update_close None) = None"
    "statusCode (update_close (Some 401)) = Some 401"
    by (simp_all add: update_close_def)
  show ?thesis
    using a b c s
      C5_reconnect_once_unless_logged_out [OF a, of 401]
      C5_reconnect_once_unless_logged_out [OF b, of 401]
      C5_reconnect_once_unless_logged_out [OF c, of 401]
    by simp
qed

text \<open>
  C6. Claim: every inbound event that is not from the bot itself and has a non-empty
  text is, while the allow-list is not empty, accepted exactly when its sender is on the
  allow-list, and an accepted event triggers exactly one handler invocation with its
  text. The code at the batch of an unauthorised message followed by an authorised one,
  with the allow-list \<open>1234@g.us\<close>: the second message is not from the bot, has the text
  \<open>hello\<close> and its sender is on the allow-list, yet the handler is never invoked and
  nothing is sent, because the \<open>return\<close> taken for the first message has ended the
  listener.
\<close>

theorem C6_allowed_event_after_rejected_is_not_handled:
  "fromMe (key (text_message ''1234@g.us'' ''hello'')) = False \<and>
   message (text_message ''1234@g.us'' ''hello'') =
     Some \<lparr>conversation = Some ''hello'', extendedText = None\<rparr> \<and>
   messageText \<lparr>conversation = Some ''hello'', extendedText = None\<rparr> = ''hello'' \<and>
   allowedChats_upsert (env_1234 ''ALLOWED_CHATS'') = [''1234@g.us''] \<and>
   remoteJid (key (text_message ''1234@g.us'' ''hello'')) = ''1234@g.us'' \<and>
   handler_calls
     (messages_upsert env_1234 (onMessage hm_ok tx_ok bot_connecting)
        [text_message ''5555@g.us'' ''spam'', text_message ''1234@g.us'' ''hello'']) = [] \<and>
   sends
     (messages_upsert env_1234 (onMessage hm_ok tx_ok bot_connecting)
        [text_message ''5555@g.us'' ''spam'', text_message ''1234@g.us'' ''hello'']) = []"
proof -
  have rej: "loop_body env_1234 (onMessage hm_ok tx_ok bot_connecting)
      (text_message ''5555@g.us'' ''spam'') = (Return, [])"
    by (simp add: loop_body_def Let_def allowed_1234 messageText_text_message)
  show ?thesis
    by (simp add: rej allowed_1234 messageText_text_message)
qed

text \<open>
  C7. For an accepted message (not from the bot itself, with a non-empty text, its sender
  on the allow-list or the allow-list empty) whose handler invocation throws, be it the
  external message handler that throws or the send after it: the message handler was
  invoked once, nothing is sent for the message, the error is caught and logged with
  \<open>console.error\<close>, and the listener goes on with the rest of the batch.
\<close>

theorem C7_handler_failure_is_contained:
  assumes "\<not> fromMe (key msg)" and "message msg = Some m" and "messageText m \<noteq> []"
    and "allowedChats_upsert (env ''ALLOWED_CHATS'') = [] \<or>
         remoteJid (key msg) \<in> set (allowedChats_upsert (env ''ALLOWED_CHATS''))"
    and "fst (onMessage hm tx wbot (remoteJid (key msg)) (messageText m)) = Some e"
  shows "messages_upsert env (onMessage hm tx wbot) (msg # rest) =
           snd (loop_body env (onMessage hm tx wbot) msg) @
           messages_upsert env (onMessage hm tx wbot) rest \<and>
         handler_calls (snd (loop_body env (onMessage hm tx wbot) msg)) = [messageText m] \<and>
         sends (snd (loop_body env (onMessage hm tx wbot) msg)) = [] \<and>
         console_errors (snd (loop_body env (onMessage hm tx wbot) msg)) =
           [''Erro ao processar mensagem:'']"
proof -
  have dl: "deliver (onMessage hm tx wbot) (remoteJid (key msg)) m fx1 =
      fx1 @
      [ConsoleLog (''Mensagem de '' @ remoteJid (key msg) @ '': '' @ messageText m),
       ConsoleLog (''Processando mensagem de '' @ remoteJid (key msg)),
       HandleMessage (messageText m), ConsoleError ''Erro ao processar mensagem:'']" for fx1
    using assms(3,5) by (rule deliver_throws)
  show ?thesis
  proof (cases "allowedChats_upsert (env ''ALLOWED_CHATS'') = []")
    case True
    note lb = loop_body_unfiltered [where env = env and cb = "onMessage hm tx wbot",
        OF assms(1,2) True]
    show ?thesis
      by (simp add: lb dl handler_calls_append sends_append console_errors_append)
  next
    case False
    with assms(4)
    have mem: "remoteJid (key msg) \<in> set (allowedChats_upsert (env ''ALLOWED_CHATS''))"
      by simp
    note lb = loop_body_authorised [where env = env and cb = "onMessage hm tx wbot",
        OF assms(1,2) False mem]
    show ?thesis
      by (simp add: lb dl handler_calls_append sends_append console_errors_append)
  qed
qed

theorem C7_handler_failure_is_contained_witness:
  "messages_upsert env_1234 (onMessage hm_throws tx_ok bot_connecting)
     [text_message ''1234@g.us'' ''hello'', text_message ''1234@g.us'' ''again''] =
     snd (loop_body env_1234 (onMessage hm_throws tx_ok bot_connecting)
            (text_message ''1234@g.us'' ''hello'')) @
     messages_upsert env_1234 (onMessage hm_throws tx_ok bot_connecting)
       [text_message ''1234@g.us'' ''again''] \<and>
   handler_calls (snd (loop_body env_1234 (onMessage hm_throws tx_ok bot_connecting)
                         (text_message ''1234@g.us'' ''hello''))) = [''hello''] \<and>
   sends (snd (loop_body env_1234 (onMessage hm_throws tx_ok bot_connecting)
                 (text_message ''1234@g.us'' ''hello''))) = [] \<and>
   console_errors (snd (loop_body env_1234 (onMessage hm_throws tx_ok bot_connecting)
                          (text_message ''1234@g.us'' ''hello''))) =
     [''Erro ao processar mensagem:''] \<and>
   sends (snd (loop_body env_1234 (onMessage hm_ok tx_ok WhatsAppBot_new)
                 (text_message ''1234@g.us'' ''hello''))) = [] \<and>
   console_errors (snd (loop_body env_1234 (onMessage hm_ok tx_ok WhatsAppBot_new)
                          (text_message ''1234@g.us'' ''hello''))) =
     [''Erro ao processar mensagem:'']"
proof -
  let ?m = "\<lparr>conversation = Some ''hello'', extendedText = None\<rparr>"
  have t: "messageText ?m = ''hello''"
    by (simp add: messageText_def js_or_def)
  have t': "messageText ?m \<noteq> []"
    by (simp add: t)
  have a: "\<not> fromMe (key (text_message ''1234@g.us'' ''hello''))"
    and b: "message (text_message ''1234@g.us'' ''hello'') = Some ?m"
    by (simp_all add: text_message_def)
  have c: "allowedChats_upsert (env_1234 ''ALLOWED_CHATS'') = [] \<or>
      remoteJid (key (text_message ''1234@g.us'' ''hello''))
        \<in> set (allowedChats_upsert (env_1234 ''ALLOWED_CHATS''))"
    by (simp add: allowed_1234 text_message_def)
  have d: "fst (onMessage hm_throws tx_ok bot_connecting
                  (remoteJid (key (text_message ''1234@g.us'' ''hello''))) (messageText ?m)) =
           Some (Thrown ''boom'')"
    by (rule onMessage_handler_throws) (simp add: hm_throws_def)
  have d': "fst (onMessage hm_ok tx_ok WhatsAppBot_new
                   (remoteJid (key (text_message ''1234@g.us'' ''hello''))) (messageText ?m)) =
            Some NotConnected"
    by (rule onMessage_not_connected [where response = "''ok''"])
      (simp_all add: hm_ok_def WhatsAppBot_new_def)
  show ?thesis
    using
      C7_handler_failure_is_contained [where env = env_1234 and hm = hm_throws
        and tx = tx_ok and wbot = bot_connecting
        and rest = "[text_message ''1234@g.us'' ''again'']", OF a b t' c d]
      C7_handler_failure_is_contained [where env = env_1234 and hm = hm_ok
        and tx = tx_ok and wbot = WhatsAppBot_new and rest = "[]", OF a b t' c d']
    by (simp add: t)
qed

text \<open>
  C8. Once a socket exists, a failure of the transport call is swallowed by
  \<open>sendMessage\<close>, which logs it and throws nothing, while \<open>reply\<close> throws the same failure
  to its caller.
\<close>

theorem C8_send_swallows_reply_propagates:
  assumes "sock self = Some s" and "tx to t = Some e"
  shows "sendMessage tx self to t =
           (None, [SockSendMessage to t False, ConsoleError ''Erro ao enviar mensagem'']) \<and>
         reply tx self to t quotedMessage =
           (Some e, [SockSendMessage to t (truthy quotedMessage)])"
  using assms by (simp add: sendMessage_def reply_def)

theorem C8_send_swallows_reply_propagates_witness:
  "sendMessage tx_fails bot_connecting ''1234@g.us'' ''hi'' =
     (None, [SockSendMessage ''1234@g.us'' ''hi'' False, ConsoleError ''Erro ao enviar mensagem'']) \<and>
   reply tx_fails bot_connecting ''1234@g.us'' ''hi'' None =
     (Some (Thrown ''Connection Closed''), [SockSendMessage ''1234@g.us'' ''hi'' False])"
proof -
  have a: "tx_fails ''1234@g.us'' ''hi'' = Some (Thrown ''Connection Closed'')"
    by (simp add: tx_fails_def)
  show ?thesis
    using
      C8_send_swallows_reply_propagates [where tx = tx_fails and quotedMessage = None,
        OF sock_bot_connecting a]
    by (simp add: truthy_def)
qed

text \<open>
  C9. Claim: for every configuration missing one or more required keys, startup exits
  with code 1 after printing every missing key, whichever keys are missing. The code at
  the configuration with nothing set: all six required keys are missing, \<open>ALLOWED_CHATS\<close>
  among them; the allow-list check comes before the check of the required keys and
  throws, so no key is printed, the only \<open>console.error\<close> is that of the
  \<open>unhandledRejection\<close> listener, and no call of \<open>process.exit\<close> is made.
\<close>

theorem C9_missing_allow_list_prints_no_key:
  "missingVars env_none = requiredEnvVars \<and>
   length (missingVars env_none) = 6 \<and>
   main env_none LibOk =
     (Threw NoAllowedChats,
      [ConsoleLog ''Iniciando Finance WhatsApp Bot...'',
       ConsoleLog ''ATENCAO: Nenhum chat configurado. Configure algum chat para o BOT funcionar corretamente.'']) \<and>
   fst (program env_none LibOk) = None \<and>
   fst (program env_none LibOk) \<noteq> Some 1 \<and>
   console_errors (snd (program env_none LibOk)) = [''Erro nao tratado:'']"
proof -
  have m: "missingVars env_none = requiredEnvVars"
    by (simp add: missingVars_def requiredEnvVars_def env_none_def truthy_def)
  have l: "length requiredEnvVars = 6"
    by (simp add: requiredEnvVars_def)
  show ?thesis
    by (simp add: m l
        main_empty_allow_list [where env = env_none, OF allowed_main_none]
        program_empty_allow_list [where env = env_none, OF allowed_main_none])
qed

text \<open>
  C10. For every value of \<open>ALLOWED_CHATS\<close>, set or unset, the parse of \<open>main\<close> and the parse
  of the \<open>messages.upsert\<close> listener give the same list, which is the list the
  specification describes: split on commas, trim each entry, drop the blank entries, the
  empty list when the variable is unset.
\<close>

theorem C10_both_parses_agree:
  "allowedChats_main v = allowedChats_upsert v \<and> allowedChats_upsert v = allow_list_spec v"
  by (cases v) (simp_all add: allowedChats_main_def allowedChats_upsert_def allow_list_spec_def
      entries_parse)

end
